theory Spec2Isabelle
  imports Complex_Main "HOL-Library.Sublist"
begin

text \<open>
  The decision engine and the execution client of the Golden-Cross trading
  agent: the moving average and the crossover scan, the trend and entry strategy
  (\<^verbatim>\<open>analyzeStrategy\<close>), the breakeven and trailing-stop management
  (\<^verbatim>\<open>calculateManagement\<close>), the decision with its position sizing
  (\<^verbatim>\<open>getTradingDecision\<close>) and the order execution (\<^verbatim>\<open>executeOrder\<close>), each as a
  function of HOL that follows the TypeScript source, and the properties of the
  specification proved or refuted on them.
\<close>

section \<open>JavaScript numbers and numeric strings\<close>

text \<open>
  A JavaScript number is a finite value, one of the two infinities, or NaN.
  Finite values are modelled as reals with exact arithmetic: rounding, overflow
  to infinity and the sign of zero are not represented. The operations below
  follow IEEE 754 on the special values: NaN propagates, every comparison with
  NaN is false, a finite non-zero value divided by zero is an infinity.
\<close>

datatype number = NaN | NInf | Fin real | PInf

fun num_neg :: "number \<Rightarrow> number" where
  "num_neg NaN = NaN"
| "num_neg NInf = PInf"
| "num_neg PInf = NInf"
| "num_neg (Fin a) = Fin (- a)"

fun num_add :: "number \<Rightarrow> number \<Rightarrow> number" where
  "num_add (Fin a) (Fin b) = Fin (a + b)"
| "num_add NaN _ = NaN"
| "num_add _ NaN = NaN"
| "num_add PInf NInf = NaN"
| "num_add NInf PInf = NaN"
| "num_add PInf _ = PInf"
| "num_add _ PInf = PInf"
| "num_add NInf _ = NInf"
| "num_add _ NInf = NInf"

definition num_sub :: "number \<Rightarrow> number \<Rightarrow> number" where
  "num_sub a b = num_add a (num_neg b)"

text \<open>An infinity scaled by a finite factor: zero times infinity is NaN.\<close>

definition inf_times :: "bool \<Rightarrow> real \<Rightarrow> number" where
  "inf_times positive a =
     (if a = 0 then NaN else if (0 < a) = positive then PInf else NInf)"

fun num_mul :: "number \<Rightarrow> number \<Rightarrow> number" where
  "num_mul (Fin a) (Fin b) = Fin (a * b)"
| "num_mul NaN _ = NaN"
| "num_mul _ NaN = NaN"
| "num_mul (Fin a) PInf = inf_times True a"
| "num_mul (Fin a) NInf = inf_times False a"
| "num_mul PInf (Fin b) = inf_times True b"
| "num_mul NInf (Fin b) = inf_times False b"
| "num_mul PInf PInf = PInf"
| "num_mul NInf NInf = PInf"
| "num_mul PInf NInf = NInf"
| "num_mul NInf PInf = NInf"

fun num_div :: "number \<Rightarrow> number \<Rightarrow> number" where
  "num_div (Fin a) (Fin b) =
     (if b \<noteq> 0 then Fin (a / b)
      else if a = 0 then NaN else if 0 < a then PInf else NInf)"
| "num_div NaN _ = NaN"
| "num_div _ NaN = NaN"
| "num_div (Fin a) _ = Fin 0"
| "num_div PInf (Fin b) = (if 0 \<le> b then PInf else NInf)"
| "num_div NInf (Fin b) = (if 0 \<le> b then NInf else PInf)"
| "num_div _ _ = NaN"

text \<open>The comparisons \<^verbatim>\<open><\<close>, \<^verbatim>\<open><=\<close> and \<^verbatim>\<open>===\<close>; \<^verbatim>\<open>a > b\<close> is \<open>num_lt b a\<close>.\<close>

fun num_lt :: "number \<Rightarrow> number \<Rightarrow> bool" where
  "num_lt (Fin a) (Fin b) = (a < b)"
| "num_lt NaN _ = False"
| "num_lt _ NaN = False"
| "num_lt PInf _ = False"
| "num_lt _ NInf = False"
| "num_lt _ _ = True"

definition num_eq :: "number \<Rightarrow> number \<Rightarrow> bool" where
  "num_eq a b = (a \<noteq> NaN \<and> a = b)"

definition num_le :: "number \<Rightarrow> number \<Rightarrow> bool" where
  "num_le a b = (num_lt a b \<or> num_eq a b)"

definition num_gt :: "number \<Rightarrow> number \<Rightarrow> bool" where
  "num_gt a b = num_lt b a"

definition num_ge :: "number \<Rightarrow> number \<Rightarrow> bool" where
  "num_ge a b = num_le b a"

fun num_abs :: "number \<Rightarrow> number" where
  "num_abs NaN = NaN"
| "num_abs NInf = PInf"
| "num_abs PInf = PInf"
| "num_abs (Fin a) = Fin \<bar>a\<bar>"

text \<open>\<^verbatim>\<open>Math.floor\<close>.\<close>

fun math_floor :: "number \<Rightarrow> number" where
  "math_floor (Fin a) = Fin (of_int \<lfloor>a\<rfloor>)"
| "math_floor x = x"

text \<open>
  \<^verbatim>\<open>Math.min(...xs)\<close> and \<^verbatim>\<open>Math.max(...xs)\<close>: the result is NaN as soon as one
  argument is NaN, and \<^verbatim>\<open>Infinity\<close> (\<^verbatim>\<open>-Infinity\<close>) for no argument at all.
\<close>

definition min2 :: "number \<Rightarrow> number \<Rightarrow> number" where
  "min2 a b = (if a = NaN \<or> b = NaN then NaN else if num_lt b a then b else a)"

definition max2 :: "number \<Rightarrow> number \<Rightarrow> number" where
  "max2 a b = (if a = NaN \<or> b = NaN then NaN else if num_lt a b then b else a)"

definition math_min :: "number list \<Rightarrow> number" where
  "math_min xs = foldl min2 PInf xs"

definition math_max :: "number list \<Rightarrow> number" where
  "math_max xs = foldl max2 NInf xs"

text \<open>\<^verbatim>\<open>Number.MAX_VALUE\<close> and \<^verbatim>\<open>Number.MIN_VALUE\<close> (the smallest positive double).\<close>

definition MAX_VALUE :: real where
  "MAX_VALUE = (2 - 1 / 2 ^ 52) * 2 ^ 1023"

definition MIN_VALUE :: real where
  "MIN_VALUE = 1 / 2 ^ 1074"

text \<open>
  The source keeps prices, sizes and balances as strings and reads them with
  \<^verbatim>\<open>parseFloat\<close>. A string is represented by what the code can observe of it:
  whether it is empty (the only falsy string) and the number \<^verbatim>\<open>parseFloat\<close>
  reads from it (NaN when it does not start with a number).
\<close>

datatype numstr = Empty | Str number

fun parseFloat :: "numstr \<Rightarrow> number" where
  "parseFloat Empty = NaN"
| "parseFloat (Str x) = x"

text \<open>\<^verbatim>\<open>s || d\<close> on a string; \<^verbatim>\<open>s || d\<close> on a possibly undefined string.\<close>

fun or_else :: "numstr \<Rightarrow> numstr \<Rightarrow> numstr" where
  "or_else Empty d = d"
| "or_else s d = s"

fun opt_or_else :: "numstr option \<Rightarrow> numstr \<Rightarrow> numstr" where
  "opt_or_else None d = d"
| "opt_or_else (Some s) d = or_else s d"

text \<open>
  \<^verbatim>\<open>x.toFixed(2)\<close>: the decimal with two fraction digits nearest to the magnitude
  of \<open>x\<close>, the larger one on a tie, with the sign of \<open>x\<close>; from \<open>10^21\<close> on, and for the
  special values, the string is that of \<^verbatim>\<open>x.toString()\<close>. \<^verbatim>\<open>x.toString()\<close> denotes
  \<open>x\<close> itself.
\<close>

definition round2 :: "real \<Rightarrow> real" where
  "round2 x =
     (if 10 ^ 21 \<le> \<bar>x\<bar> then x
      else if x < 0 then - (of_int \<lfloor>(- x) * 100 + 1 / 2\<rfloor> / 100)
      else of_int \<lfloor>x * 100 + 1 / 2\<rfloor> / 100)"

fun toFixed2 :: "number \<Rightarrow> numstr" where
  "toFixed2 (Fin x) = Str (Fin (round2 x))"
| "toFixed2 x = Str x"

definition toString :: "number \<Rightarrow> numstr" where
  "toString x = Str x"

section \<open>Indicator: exponential moving average\<close>

text \<open>
  \<^verbatim>\<open>calcEMA\<close> of \<^verbatim>\<open>services/aiService.ts\<close>. The loop over \<open>i = 1 .. length - 1\<close> is
  \<open>ema_loop\<close>: it walks the remaining prices, carries \<^verbatim>\<open>prevEma\<close> and emits one
  value per price.
\<close>

fun ema_loop :: "number \<Rightarrow> number list \<Rightarrow> number \<Rightarrow> number list" where
  "ema_loop k [] prevEma = []"
| "ema_loop k (p # ps) prevEma =
     (let val = num_add (num_mul p k) (num_mul prevEma (num_sub (Fin 1) k))
      in val # ema_loop k ps val)"

definition calcEMA :: "number list \<Rightarrow> nat \<Rightarrow> number list" where
  "calcEMA prices period =
     (let k = num_div (Fin 2) (num_add (Fin (real period)) (Fin 1))
      in case prices of
           [] \<Rightarrow> []
         | p0 # rest \<Rightarrow> p0 # ema_loop k rest p0)"

section \<open>Rounding to double precision\<close>

text \<open>
  The operations above are exact, and the properties below are stated in terms
  of them: they say which operations the code applies to which values, and do
  not depend on the rounding of the results, with one exception, the fixed point
  of the moving average, which is an identity of exact arithmetic.

  The code computes in IEEE 754 double precision, where every arithmetic
  operation returns the double nearest to the exact result, the one with an even
  significand on a tie. \<open>dbl\<close> is this rounding: \<open>exponent x\<close> is the binary exponent of
  \<open>x\<close>, not below that of the smallest normal double, found by scanning down from
  the largest; the spacing of doubles around \<open>x\<close> is \<open>2 powi (exponent x - 52)\<close>; a
  result of magnitude \<open>2 powi 1024\<close> overflows.
\<close>

definition round_even :: "real \<Rightarrow> int" where
  "round_even q =
     (let n = \<lfloor>q\<rfloor>; r = q - of_int n
      in if r < 1 / 2 then n else if 1 / 2 < r then n + 1
         else if even n then n else n + 1)"

fun exponent_from :: "nat \<Rightarrow> int \<Rightarrow> real \<Rightarrow> int" where
  "exponent_from 0 z a = z"
| "exponent_from (Suc n) z a = (if 2 powi z \<le> a then z else exponent_from n (z - 1) a)"

definition exponent :: "real \<Rightarrow> int" where
  "exponent x = exponent_from 2045 1023 \<bar>x\<bar>"

definition dbl :: "real \<Rightarrow> number" where
  "dbl x =
     (let u = 2 powi (exponent x - 52);
          r = of_int (round_even (x / u)) * u
      in if 2 powi 1024 \<le> \<bar>r\<bar> then (if 0 < x then PInf else NInf) else Fin r)"

fun round_num :: "number \<Rightarrow> number" where
  "round_num (Fin x) = dbl x"
| "round_num x = x"

text \<open>\<^verbatim>\<open>calcEMA\<close> with every operation rounded.\<close>

fun ema_loop_double :: "number \<Rightarrow> number list \<Rightarrow> number \<Rightarrow> number list" where
  "ema_loop_double k [] prevEma = []"
| "ema_loop_double k (p # ps) prevEma =
     (let val = round_num (num_add (round_num (num_mul p k))
                  (round_num (num_mul prevEma (round_num (num_sub (Fin 1) k)))))
      in val # ema_loop_double k ps val)"

definition calcEMA_double :: "number list \<Rightarrow> nat \<Rightarrow> number list" where
  "calcEMA_double prices period =
     (let k = round_num (num_div (Fin 2) (round_num (num_add (Fin (real period)) (Fin 1))))
      in case prices of
           [] \<Rightarrow> []
         | p0 # rest \<Rightarrow> p0 # ema_loop_double k rest p0)"

section \<open>Data model\<close>

text \<open>
  The interfaces of \<^verbatim>\<open>types.ts\<close>. Field names that would clash with a constant of
  HOL or with each other carry a prefix: the candle's \<^verbatim>\<open>o, h, l, c\<close> are \<open>c_o, c_h,
  c_l, c_c\<close>, the ticker's fields start with \<open>tk_\<close>, the position's size \<^verbatim>\<open>pos\<close>
  is \<open>pos_sz\<close>.
\<close>

record CandleData =
  ts :: string
  c_o :: numstr
  c_h :: numstr
  c_l :: numstr
  c_c :: numstr
  vol :: numstr

record TickerData =
  tk_instId :: string
  tk_last :: numstr
  tk_lastSz :: numstr
  tk_askPx :: numstr
  tk_bidPx :: numstr
  tk_open24h :: numstr
  tk_high24h :: numstr
  tk_low24h :: numstr
  tk_volCcy24h :: numstr
  tk_ts :: string

record AccountBalance =
  totalEq :: numstr
  availEq :: numstr
  uTime :: string

datatype PosSide = Long | Short | Net

record PositionData =
  instId :: string
  posSide :: PosSide
  pos_sz :: numstr
  avgPx :: numstr
  upl :: numstr
  uplRatio :: numstr
  mgnMode :: string
  margin :: numstr
  liqPx :: numstr
  cTime :: string
  slTriggerPx :: "numstr option"
  tpTriggerPx :: "numstr option"

record AccountContext =
  balance :: AccountBalance
  positions :: "PositionData list"

text \<open>\<^verbatim>\<open>orderbook\<close> and \<^verbatim>\<open>trades\<close> (of type \<^verbatim>\<open>any\<close>) are read nowhere and left out.\<close>

record MarketDataCollection =
  ticker :: "TickerData option"
  candles1H :: "CandleData list"
  candles3m :: "CandleData list"
  fundingRate :: numstr
  openInterest :: numstr

datatype Action = BUY | SELL | HOLD | CLOSE | UPDATE_TPSL

datatype CrossType = GOLDEN | DEAD

record CrossEvent =
  index :: nat
  kind :: CrossType
  price :: number
  cross_ts :: string

text \<open>
  The rationale texts of the source are Chinese sentences, some with values
  spliced in. Each is represented by a constructor that keeps the spliced values:
  \<^item> \<open>NoReason\<close>: the empty string;
  \<^item> \<open>DataInsufficient\<close>: data insufficient, candles are being accumulated;
  \<^item> \<open>ReversalToLong\<close>: the 1H trend reversed to long, the short is closed;
  \<^item> \<open>ReversalToShort\<close>: the 1H trend reversed to short, the long is closed;
  \<^item> \<open>BuySignal minLow\<close>, \<open>SellSignal maxHigh\<close>: the entry signals;
  \<^item> \<open>Monitoring up lastType ago\<close>: the monitoring text with the trend description,
    the type of the latest cross and its distance (both absent without a cross);
  \<^item> \<open>Breakeven\<close>, \<open>TrailLow\<close>, \<open>TrailHigh\<close>: the three texts of the position management.
\<close>

datatype Reason =
    NoReason
  | DataInsufficient
  | ReversalToLong
  | ReversalToShort
  | BuySignal number
  | SellSignal number
  | Monitoring bool "CrossType option" "int option"
  | Breakeven
  | TrailLow
  | TrailHigh

text \<open>The object returned by \<^verbatim>\<open>analyzeStrategy\<close>.\<close>

record Analysis =
  action :: Action
  reason :: Reason
  sl :: number
  isUpTrend :: bool

text \<open>The object returned by \<^verbatim>\<open>calculateManagement\<close>.\<close>

record Management =
  m_sl :: numstr
  m_reason :: Reason

text \<open>
  \<^verbatim>\<open>AIDecision\<close>. \<^verbatim>\<open>stage_analysis\<close> is one of two fixed texts, chosen by the trend, and
  is kept as that choice; \<^verbatim>\<open>market_assessment\<close>, \<^verbatim>\<open>eth_analysis\<close> and
  \<^verbatim>\<open>invalidation_condition\<close> are fixed Chinese literals and are left out.
\<close>

record TradingDecision =
  td_action :: Action
  confidence :: string
  position_size :: numstr
  td_leverage :: string
  profit_target :: string
  stop_loss :: numstr

record AIDecision =
  stage_analysis :: bool
  hot_events_overview :: string
  trading_decision :: TradingDecision
  reasoning :: Reason
  d_action :: Action
  d_size :: numstr
  d_leverage :: string

text \<open>
  Modelled from the spec: \<^verbatim>\<open>constants.ts\<close> is not among the sources. The spec gives the
  per-contract underlying value as 0.1 (section 8), as does the comment at the
  conversion in \<^verbatim>\<open>getTradingDecision\<close>. \<^verbatim>\<open>INSTRUMENT_ID\<close> is nowhere given and is a
  parameter of the functions that use it.
\<close>

definition CONTRACT_VAL_ETH :: real where
  "CONTRACT_VAL_ETH = 1 / 10"

section \<open>Strategy core\<close>

text \<open>The 1H trend: \<^verbatim>\<open>isUpTrend\<close> of \<^verbatim>\<open>analyzeStrategy\<close>, read at the last index.\<close>

definition isUpTrend1H :: "CandleData list \<Rightarrow> bool" where
  "isUpTrend1H c1h =
     (let closes1h = map (\<lambda>c. parseFloat (c_c c)) c1h;
          ema15_1h = calcEMA closes1h 15;
          ema60_1h = calcEMA closes1h 60;
          idx1h = length closes1h - 1
      in num_gt (ema15_1h ! idx1h) (ema60_1h ! idx1h))"

text \<open>
  The body of the scanning loop at index \<open>i\<close>; \<open>crosses @ [e]\<close> is \<^verbatim>\<open>crosses.push(e)\<close>.
  The loop runs over \<open>scanStart \<le> i < length c3m\<close> with \<open>scanStart \<ge> 1\<close>, so every
  index read is in range.
\<close>

definition scan_step ::
  "number list \<Rightarrow> number list \<Rightarrow> number list \<Rightarrow> CandleData list \<Rightarrow>
   CrossEvent list \<Rightarrow> nat \<Rightarrow> CrossEvent list" where
  "scan_step ema15_3m ema60_3m closes3m c3m crosses i =
     (let prev15 = ema15_3m ! (i - 1);
          prev60 = ema60_3m ! (i - 1);
          curr15 = ema15_3m ! i;
          curr60 = ema60_3m ! i
      in if num_le prev15 prev60 \<and> num_gt curr15 curr60
         then crosses @ [\<lparr>index = i, kind = GOLDEN, price = closes3m ! i,
                          cross_ts = ts (c3m ! i)\<rparr>]
         else if num_ge prev15 prev60 \<and> num_lt curr15 curr60
         then crosses @ [\<lparr>index = i, kind = DEAD, price = closes3m ! i,
                          cross_ts = ts (c3m ! i)\<rparr>]
         else crosses)"

definition scanCrosses :: "CandleData list \<Rightarrow> CrossEvent list" where
  "scanCrosses c3m =
     (let closes3m = map (\<lambda>c. parseFloat (c_c c)) c3m;
          ema15_3m = calcEMA closes3m 15;
          ema60_3m = calcEMA closes3m 60;
          scanStart = max 1 (length c3m - 50)
      in foldl (scan_step ema15_3m ema60_3m closes3m c3m) [] [scanStart ..< length c3m])"

text \<open>The two stop-loss loops over \<open>prevCross.index \<le> i \<le> lastCross.index\<close>.\<close>

definition minLowBetween :: "number list \<Rightarrow> nat \<Rightarrow> nat \<Rightarrow> number" where
  "minLowBetween lows3m a b =
     foldl (\<lambda>minLow i. if num_lt (lows3m ! i) minLow then lows3m ! i else minLow)
       (Fin MAX_VALUE) [a ..< Suc b]"

definition maxHighBetween :: "number list \<Rightarrow> nat \<Rightarrow> nat \<Rightarrow> number" where
  "maxHighBetween highs3m a b =
     foldl (\<lambda>maxHigh i. if num_gt (highs3m ! i) maxHigh then highs3m ! i else maxHigh)
       (Fin MIN_VALUE) [a ..< Suc b]"

text \<open>The result when neither an exit nor an entry fires (\<^verbatim>\<open>action === 'HOLD'\<close>).\<close>

definition holdResult :: "bool \<Rightarrow> CrossEvent list \<Rightarrow> nat \<Rightarrow> Analysis" where
  "holdResult isUp crosses n =
     \<lparr>action = HOLD,
      reason = Monitoring isUp
        (if 0 < length crosses then Some (kind (crosses ! (length crosses - 1))) else None)
        (if 0 < length crosses
         then Some (int n - int (index (crosses ! (length crosses - 1)))) else None),
      sl = Fin 0, isUpTrend = isUp\<rparr>"

text \<open>
  \<^verbatim>\<open>analyzeStrategy\<close>. \<^verbatim>\<open>positions.find\<close> is \<open>find\<close>: the first position of the
  tracked instrument, if any.
\<close>

definition analyzeStrategy ::
  "string \<Rightarrow> MarketDataCollection \<Rightarrow> AccountContext \<Rightarrow> Analysis" where
  "analyzeStrategy INSTRUMENT_ID marketData accountData =
     (let c1h = candles1H marketData;
          c3m = candles3m marketData
      in if length c1h < 60 \<or> length c3m < 60
         then \<lparr>action = HOLD, reason = DataInsufficient, sl = Fin 0, isUpTrend = False\<rparr>
         else
           let isUp = isUpTrend1H c1h;
               highs3m = map (\<lambda>c. parseFloat (c_h c)) c3m;
               lows3m = map (\<lambda>c. parseFloat (c_l c)) c3m;
               crosses = scanCrosses c3m;
               primaryPos = find (\<lambda>p. instId p = INSTRUMENT_ID) (positions accountData)
           in case primaryPos of
                Some p \<Rightarrow>
                  if isUp \<and> posSide p = Short
                  then \<lparr>action = CLOSE, reason = ReversalToLong, sl = Fin 0, isUpTrend = isUp\<rparr>
                  else if \<not> isUp \<and> posSide p = Long
                  then \<lparr>action = CLOSE, reason = ReversalToShort, sl = Fin 0, isUpTrend = isUp\<rparr>
                  else holdResult isUp crosses (length c3m)
              | None \<Rightarrow>
                  if 2 \<le> length crosses
                  then
                    let lastCross = crosses ! (length crosses - 1);
                        prevCross = crosses ! (length crosses - 2);
                        candlesAgo = int (length c3m) - 1 - int (index lastCross);
                        isFresh = (candlesAgo \<le> 2)
                    in if isFresh \<and> isUp \<and> kind prevCross = DEAD \<and> kind lastCross = GOLDEN
                       then
                         let minLow = minLowBetween lows3m (index prevCross) (index lastCross)
                         in \<lparr>action = BUY, reason = BuySignal minLow,
                             sl = num_mul minLow (Fin (9995 / 10000)), isUpTrend = isUp\<rparr>
                       else if isFresh \<and> \<not> isUp \<and> kind prevCross = GOLDEN
                               \<and> kind lastCross = DEAD
                       then
                         let maxHigh = maxHighBetween highs3m (index prevCross) (index lastCross)
                         in \<lparr>action = SELL, reason = SellSignal maxHigh,
                             sl = num_mul maxHigh (Fin (10005 / 10000)), isUpTrend = isUp\<rparr>
                       else holdResult isUp crosses (length c3m)
                  else holdResult isUp crosses (length c3m))"

section \<open>Position management: breakeven and trailing stop\<close>

text \<open>
  \<^verbatim>\<open>calculateManagement\<close>, called with a position that is present (the guard
  \<^verbatim>\<open>if (!pos) return null\<close> is the caller's \<open>None\<close> case). \<^verbatim>\<open>c3m.slice(-5)\<close> keeps the
  last five candles, all of them when there are fewer. The pair \<open>(newSL, reason)\<close>
  starts as \<open>(0, "")\<close> and is assigned in at most one branch. \<open>markPxOf\<close> and
  \<open>currentSLOf\<close> are the constants \<^verbatim>\<open>markPx\<close> (the estimated mark price) and
  \<^verbatim>\<open>currentSL\<close> of the function.
\<close>

definition markPxOf :: "PositionData \<Rightarrow> number" where
  "markPxOf pos =
     num_add (parseFloat (avgPx pos))
       (num_div (parseFloat (upl pos))
          (num_mul (parseFloat (pos_sz pos)) (Fin CONTRACT_VAL_ETH)))"

definition currentSLOf :: "PositionData \<Rightarrow> number" where
  "currentSLOf pos = parseFloat (opt_or_else (slTriggerPx pos) (Str (Fin 0)))"

definition calculateManagement :: "PositionData \<Rightarrow> CandleData list \<Rightarrow> Management option" where
  "calculateManagement pos c3m =
     (let entryPx = parseFloat (avgPx pos);
          markPx = markPxOf pos;
          currentSL = currentSLOf pos;
          lookback = 5;
          recentCandles = drop (length c3m - lookback) c3m;
          (newSL, reason) =
            (if posSide pos = Long then
               let dist = num_mul entryPx (Fin (5 / 1000))
               in if num_gt markPx (num_add entryPx dist) \<and> num_lt currentSL entryPx
                  then (entryPx, Breakeven)
                  else
                    let recentLow = math_min (map (\<lambda>c. parseFloat (c_l c)) recentCandles);
                        trailSL = num_mul recentLow (Fin (9995 / 10000))
                    in if num_gt trailSL currentSL \<and> num_gt trailSL entryPx
                          \<and> num_lt trailSL markPx
                       then (trailSL, TrailLow)
                       else (Fin 0, NoReason)
             else if posSide pos = Short then
               let dist = num_mul entryPx (Fin (5 / 1000))
               in if num_lt markPx (num_sub entryPx dist)
                     \<and> (num_gt currentSL entryPx \<or> num_eq currentSL (Fin 0))
                  then (entryPx, Breakeven)
                  else
                    let recentHigh = math_max (map (\<lambda>c. parseFloat (c_h c)) recentCandles);
                        trailSL = num_mul recentHigh (Fin (10005 / 10000))
                    in if (num_lt trailSL currentSL \<or> num_eq currentSL (Fin 0))
                          \<and> num_lt trailSL entryPx \<and> num_gt trailSL markPx
                       then (trailSL, TrailHigh)
                       else (Fin 0, NoReason)
             else (Fin 0, NoReason))
      in if num_gt newSL (Fin 0)
            \<and> num_gt (num_abs (num_sub newSL currentSL)) (num_mul entryPx (Fin (5 / 10000)))
         then Some \<lparr>m_sl = toFixed2 newSL, m_reason = reason\<rparr>
         else None)"

section \<open>Decision aggregation and position sizing\<close>

text \<open>The sizing block of \<^verbatim>\<open>getTradingDecision\<close>, run when the action is BUY or SELL.\<close>

definition positionSize :: "AccountContext \<Rightarrow> MarketDataCollection \<Rightarrow> numstr \<Rightarrow> numstr" where
  "positionSize accountData marketData finalSL =
     (let avail = parseFloat (availEq (balance accountData));
          riskPerTrade = num_mul avail (Fin (5 / 100));
          entry = parseFloat (opt_or_else (map_option tk_last (ticker marketData)) (Str (Fin 0)));
          stopDist = num_abs (num_sub entry (parseFloat finalSL));
          size1 =
            (if num_gt stopDist (Fin 0) then
               let coinSize = num_div riskPerTrade stopDist;
                   contracts = num_div coinSize (Fin CONTRACT_VAL_ETH);
                   size = toString (math_floor contracts)
               in if num_lt (parseFloat size) (Fin 1) then Str (Fin 1) else size
             else Str (Fin 1));
          maxNotional = num_mul avail (Fin 20);
          currentNotional = num_mul (num_mul (parseFloat size1) (Fin CONTRACT_VAL_ETH)) entry
      in if num_gt currentNotional maxNotional
         then toString (math_floor (num_div maxNotional (num_mul (Fin CONTRACT_VAL_ETH) entry)))
         else size1)"

text \<open>\<^verbatim>\<open>getTradingDecision\<close>; its \<^verbatim>\<open>apiKey\<close> argument is not used by the code.\<close>

definition getTradingDecision ::
  "string \<Rightarrow> MarketDataCollection \<Rightarrow> AccountContext \<Rightarrow> AIDecision" where
  "getTradingDecision INSTRUMENT_ID marketData accountData =
     (let analysis = analyzeStrategy INSTRUMENT_ID marketData accountData;
          primaryPos = find (\<lambda>p. instId p = INSTRUMENT_ID) (positions accountData);
          mgmtAction =
            (case primaryPos of
               Some p \<Rightarrow>
                 if action analysis = HOLD
                 then calculateManagement p (candles3m marketData) else None
             | None \<Rightarrow> None);
          (finalAction, finalSL, finalReason) =
            (case mgmtAction of
               Some m \<Rightarrow> (UPDATE_TPSL, m_sl m, m_reason m)
             | None \<Rightarrow>
                 (action analysis,
                  if num_gt (sl analysis) (Fin 0) then toFixed2 (sl analysis) else Str (Fin 0),
                  reason analysis));
          size =
            (if finalAction = BUY \<or> finalAction = SELL
             then positionSize accountData marketData finalSL
             else Str (Fin 0))
      in \<lparr>stage_analysis = isUpTrend analysis,
          hot_events_overview = ''Algo Mode'',
          trading_decision =
            \<lparr>td_action = finalAction, confidence = ''100%'', position_size = size,
             td_leverage = ''10'', profit_target = ''0'', stop_loss = finalSL\<rparr>,
          reasoning = finalReason,
          d_action = finalAction,
          d_size = size,
          d_leverage = ''10''\<rparr>)"


section \<open>Execution client\<close>

text \<open>
  \<^verbatim>\<open>executeOrder\<close> and its helpers \<^verbatim>\<open>ensureLongShortMode\<close> and \<^verbatim>\<open>setLeverage\<close>. The
  exchange is a function from the request to the outcome of \<^verbatim>\<open>fetch\<close> followed by
  \<^verbatim>\<open>json()\<close>: a reply envelope, or the failure of the call with the message of
  the error thrown. No request is issued twice within one instruction, so a
  function of the request loses nothing. Each function returns the requests it
  issued, in order, next to its result. Every request names the tracked
  instrument and isolated margin; those constant fields, the headers and the
  signature are not represented.
\<close>

record AppConfig =
  okxApiKey :: string
  okxSecretKey :: string
  okxPassphrase :: string
  deepseekApiKey :: string
  isSimulation :: bool

text \<open>The fields read from the entries of \<^verbatim>\<open>data\<close>; an absent \<^verbatim>\<open>data\<close> is the empty list.\<close>

record Datum =
  posMode :: "string option"
  ordId :: "string option"

record Response =
  code :: string
  msg :: string
  data :: "Datum list"

datatype Outcome = Reply Response | Failed string

datatype Side = Buy | Sell

text \<open>
  The body of the market order: \<^verbatim>\<open>side\<close>, \<^verbatim>\<open>posSide\<close>, \<^verbatim>\<open>sz\<close> and, when a stop is
  attached, the \<^verbatim>\<open>slTriggerPx\<close> of the single entry of \<^verbatim>\<open>attachAlgoOrds\<close> (its
  \<^verbatim>\<open>slOrdPx\<close> is the constant \<^verbatim>\<open>-1\<close>).
\<close>

record OrderBody =
  side :: Side
  ob_posSide :: PosSide
  sz :: numstr
  attachAlgoOrds :: "numstr option"

datatype Request =
    GetAccountConfig
  | SetPositionMode
  | ClosePosition PosSide
  | SetLeverage string PosSide
  | PlaceOrder OrderBody

type_synonym Exchange = "Request \<Rightarrow> Outcome"

text \<open>
  The errors thrown, by the text of their message:
  \<^item> \<open>NetworkError m\<close>: the error of a failed \<^verbatim>\<open>fetch\<close> or \<^verbatim>\<open>json()\<close>, passed on as is;
  \<^item> \<open>SetPosModeFailed m\<close>: the position mode could not be switched, with the
    exchange's message \<open>m\<close>;
  \<^item> \<open>CloseFailed m\<close>: closing failed; \<open>m\<close> is the whole text, \<open>closeFailedMessage\<close> of
    the exchange's messages for the long and for the short attempt;
  \<^item> \<open>SetLeverageRejected lever m c\<close>: setting the leverage failed, with the
    exchange's message and code;
  \<^item> \<open>CannotSetLeverage e\<close>: the wrapper around the message of \<open>e\<close>;
  \<^item> \<open>InvalidSize s\<close>: invalid quantity, followed by \<^verbatim>\<open>order.size\<close>;
  \<^item> \<open>OrderFailed m c\<close>: the order was rejected, with the exchange's message and code.
\<close>

datatype Error =
    NetworkError string
  | SetPosModeFailed string
  | CloseFailed string
  | SetLeverageRejected string string string
  | CannotSetLeverage Error
  | InvalidSize numstr
  | OrderFailed string string

text \<open>
  The text of the close failure: the template of the source with the two
  messages spliced in. Its Chinese words ("closing failed", "long", "short") are
  written as their UTF-8 bytes.
\<close>

definition closeFailedMessage :: "string \<Rightarrow> string \<Rightarrow> string" where
  "closeFailedMessage msgLong msgShort =
     [CHR 0xE5, CHR 0xB9, CHR 0xB3, CHR 0xE4, CHR 0xBB, CHR 0x93, CHR 0xE5, CHR 0xA4, CHR 0xB1, CHR 0xE8, CHR 0xB4, CHR 0xA5] @ '' (''
     @ [CHR 0xE5, CHR 0xA4, CHR 0x9A] @ '': '' @ msgLong @ '', ''
     @ [CHR 0xE7, CHR 0xA9, CHR 0xBA] @ '': '' @ msgShort @ '')''"

text \<open>The message of the simulated reply, a Chinese literal, as its UTF-8 bytes.\<close>

definition SIM_ORDER_OK :: string where
  "SIM_ORDER_OK = [CHR 0xE6, CHR 0xA8, CHR 0xA1, CHR 0xE6, CHR 0x8B, CHR 0x9F, CHR 0xE4, CHR 0xB8, CHR 0x8B, CHR 0xE5, CHR 0x8D, CHR 0x95, CHR 0xE6, CHR 0x88, CHR 0x90, CHR 0xE5, CHR 0x8A, CHR 0x9F]"

definition ensureLongShortMode :: "Exchange \<Rightarrow> AppConfig \<Rightarrow> Request list \<times> (Error + unit)" where
  "ensureLongShortMode ex config =
     (if isSimulation config then ([], Inr ())
      else
        case ex GetAccountConfig of
          Failed e \<Rightarrow> ([GetAccountConfig], Inl (NetworkError e))
        | Reply json \<Rightarrow>
            (case data json of
               d0 # _ \<Rightarrow>
                 if code json = ''0'' \<and> posMode d0 \<noteq> Some ''long_short_mode''
                 then
                   (case ex SetPositionMode of
                      Failed e \<Rightarrow> ([GetAccountConfig, SetPositionMode], Inl (NetworkError e))
                    | Reply setJson \<Rightarrow>
                        if code setJson \<noteq> ''0''
                        then ([GetAccountConfig, SetPositionMode],
                              Inl (SetPosModeFailed (msg setJson)))
                        else ([GetAccountConfig, SetPositionMode], Inr ()))
                 else ([GetAccountConfig], Inr ())
             | [] \<Rightarrow> ([GetAccountConfig], Inr ())))"

definition setLeverage ::
  "Exchange \<Rightarrow> string \<Rightarrow> PosSide \<Rightarrow> AppConfig \<Rightarrow> Request list \<times> (Error + unit)" where
  "setLeverage ex lever pside config =
     (if isSimulation config then ([], Inr ())
      else
        case ex (SetLeverage lever pside) of
          Failed e \<Rightarrow> ([SetLeverage lever pside], Inl (NetworkError e))
        | Reply json \<Rightarrow>
            if code json \<noteq> ''0''
            then ([SetLeverage lever pside],
                  Inl (SetLeverageRejected lever (msg json) (code json)))
            else ([SetLeverage lever pside], Inr ()))"

text \<open>\<^verbatim>\<open>cleanPrice\<close>, the local function of \<^verbatim>\<open>executeOrder\<close>.\<close>

definition cleanPrice :: "numstr \<Rightarrow> numstr option" where
  "cleanPrice p =
     (if p \<noteq> Empty \<and> parseFloat p \<noteq> NaN \<and> num_gt (parseFloat p) (Fin 0)
      then Some p else None)"

text \<open>
  \<^verbatim>\<open>executeOrder\<close>; \<open>now\<close> is the rendering of \<^verbatim>\<open>Date.now()\<close>, used by the simulated
  reply only. An error of the pre-step is caught and logged. The inner
  \<^verbatim>\<open>try\<close> around the size check rethrows whatever is thrown there as the
  invalid-quantity error; the outer \<^verbatim>\<open>catch\<close> rethrows what it catches.
\<close>

definition executeOrder ::
  "Exchange \<Rightarrow> string \<Rightarrow> AIDecision \<Rightarrow> AppConfig \<Rightarrow> Request list \<times> (Error + Response)" where
  "executeOrder ex now order config =
     (if isSimulation config
      then ([], Inr \<lparr>code = ''0'', msg = SIM_ORDER_OK,
                     data = [\<lparr>posMode = None, ordId = Some (''sim_'' @ now)\<rparr>]\<rparr>)
      else
        let t0 = fst (ensureLongShortMode ex config)
        in if d_action order = CLOSE then
             (case ex (ClosePosition Long) of
                Failed e \<Rightarrow> (t0 @ [ClosePosition Long], Inl (NetworkError e))
              | Reply jsonLong \<Rightarrow>
                  if code jsonLong = ''0''
                  then (t0 @ [ClosePosition Long], Inr jsonLong)
                  else
                    (case ex (ClosePosition Short) of
                       Failed e \<Rightarrow>
                         (t0 @ [ClosePosition Long, ClosePosition Short], Inl (NetworkError e))
                     | Reply jsonShort \<Rightarrow>
                         if code jsonShort = ''0''
                         then (t0 @ [ClosePosition Long, ClosePosition Short], Inr jsonShort)
                         else (t0 @ [ClosePosition Long, ClosePosition Short],
                               Inl (CloseFailed
                                      (closeFailedMessage (msg jsonLong) (msg jsonShort))))))
           else
             let pside = (if d_action order = BUY then Long else Short);
                 oside = (if d_action order = BUY then Buy else Sell);
                 lever = (if d_leverage order = [] then ''50'' else d_leverage order);
                 (t1, lev) = setLeverage ex lever pside config
             in case lev of
                  Inl e \<Rightarrow> (t0 @ t1, Inl (CannotSetLeverage e))
                | Inr _ \<Rightarrow>
                    let sizeFloat = parseFloat (d_size order)
                    in if num_lt sizeFloat (Fin (1 / 100))
                       then (t0 @ t1, Inl (InvalidSize (d_size order)))
                       else
                         let sizeStr = toFixed2 sizeFloat;
                             validSl = cleanPrice (stop_loss (trading_decision order));
                             req = PlaceOrder \<lparr>side = oside, ob_posSide = pside, sz = sizeStr,
                                               attachAlgoOrds = validSl\<rparr>
                         in case ex req of
                              Failed e \<Rightarrow> (t0 @ t1 @ [req], Inl (NetworkError e))
                            | Reply json \<Rightarrow>
                                if code json \<noteq> ''0''
                                then (t0 @ t1 @ [req],
                                      Inl (OrderFailed (msg json) (code json)))
                                else (t0 @ t1 @ [req], Inr json))"

section \<open>Example snapshots\<close>

text \<open>
  Concrete inputs at which the theorems below are instantiated. A candle of
  \<open>candle_at x\<close> has open, high, low and close \<open>x\<close>.
\<close>

definition candle_at :: "real \<Rightarrow> CandleData" where
  "candle_at x =
     \<lparr>ts = ''0'', c_o = Str (Fin x), c_h = Str (Fin x), c_l = Str (Fin x),
      c_c = Str (Fin x), vol = Str (Fin 1)\<rparr>"

definition ex_ticker :: "real \<Rightarrow> TickerData" where
  "ex_ticker x =
     \<lparr>tk_instId = ''ETH-USDT-SWAP'', tk_last = Str (Fin x), tk_lastSz = Str (Fin 1),
      tk_askPx = Str (Fin x), tk_bidPx = Str (Fin x), tk_open24h = Str (Fin x),
      tk_high24h = Str (Fin x), tk_low24h = Str (Fin x), tk_volCcy24h = Str (Fin 1),
      tk_ts = ''0''\<rparr>"

text \<open>Sixty 1H candles ending in a rise (uptrend), and ending in a fall (downtrend).\<close>

definition ex_c1h_up :: "CandleData list" where
  "ex_c1h_up = replicate 59 (candle_at 100) @ [candle_at 101]"


text \<open>
  Sixty 3m candles: flat at 100, a dip to 99 at index 58 (dead cross), a recovery
  to 102 at index 59 (golden cross).
\<close>

definition ex_c3m_buy :: "CandleData list" where
  "ex_c3m_buy = replicate 58 (candle_at 100) @ [candle_at 99, candle_at 102]"


definition ex_market :: "CandleData list \<Rightarrow> CandleData list \<Rightarrow> MarketDataCollection" where
  "ex_market c1h c3m =
     \<lparr>ticker = Some (ex_ticker 102), candles1H = c1h, candles3m = c3m,
      fundingRate = Str (Fin 0), openInterest = Str (Fin 0)\<rparr>"

definition ex_position ::
  "PosSide \<Rightarrow> real \<Rightarrow> real \<Rightarrow> real \<Rightarrow> numstr option \<Rightarrow> PositionData" where
  "ex_position pside qty entry pnl stop =
     \<lparr>instId = ''ETH-USDT-SWAP'', posSide = pside, pos_sz = Str (Fin qty),
      avgPx = Str (Fin entry), upl = Str (Fin pnl), uplRatio = Str (Fin 0),
      mgnMode = ''isolated'', margin = Str (Fin 0), liqPx = Str (Fin 0), cTime = ''0'',
      slTriggerPx = stop, tpTriggerPx = None\<rparr>"

definition ex_account :: "PositionData list \<Rightarrow> AccountContext" where
  "ex_account ps =
     \<lparr>balance = \<lparr>totalEq = Str (Fin 1000), availEq = Str (Fin 1000), uTime = ''0''\<rparr>,
      positions = ps\<rparr>"



definition ex_pos_trailing :: PositionData where
  "ex_pos_trailing = ex_position Long 10 100 (1 / 10) (Some (Str (Fin 90)))"



text \<open>
  A live configuration; replies of the exchange; an exchange that accepts every
  request, one that rejects closing the long side only, and one that rejects
  closing either side; an instruction with a given action, size and stop-loss.
\<close>

definition ex_live_config :: AppConfig where
  "ex_live_config =
     \<lparr>okxApiKey = ''key'', okxSecretKey = ''secret'', okxPassphrase = ''pass'',
      deepseekApiKey = [], isSimulation = False\<rparr>"

definition ex_reply :: "string \<Rightarrow> string \<Rightarrow> Response" where
  "ex_reply c m =
     \<lparr>code = c, msg = m, data = [\<lparr>posMode = Some ''long_short_mode'', ordId = None\<rparr>]\<rparr>"

definition ex_all_ok :: Exchange where
  "ex_all_ok req = Reply (ex_reply ''0'' [])"

definition ex_no_long :: Exchange where
  "ex_no_long req =
     (if req = ClosePosition Long then Reply (ex_reply ''51023'' ''no long position'')
      else Reply (ex_reply ''0'' []))"

definition ex_no_position :: Exchange where
  "ex_no_position req =
     (if req = ClosePosition Long then Reply (ex_reply ''51023'' ''no long position'')
      else if req = ClosePosition Short then Reply (ex_reply ''51023'' ''no short position'')
      else Reply (ex_reply ''0'' []))"

definition ex_order :: "Action \<Rightarrow> numstr \<Rightarrow> numstr \<Rightarrow> AIDecision" where
  "ex_order act sz_str sl_str =
     \<lparr>stage_analysis = True, hot_events_overview = ''Algo Mode'',
      trading_decision =
        \<lparr>td_action = act, confidence = ''100%'', position_size = sz_str,
         td_leverage = ''10'', profit_target = ''0'', stop_loss = sl_str\<rparr>,
      reasoning = NoReason, d_action = act, d_size = sz_str, d_leverage = ''10''\<rparr>"

section \<open>Properties of the indicator\<close>

lemma ema_k_finite:
  "num_div (Fin 2) (num_add (Fin (real period)) (Fin 1)) = Fin (2 / (real period + 1))"
proof -
  have "real period + 1 \<noteq> 0"
    using of_nat_0_le_iff [of period, where 'a = real] by linarith
  then show ?thesis by simp
qed

lemma length_ema_loop: "length (ema_loop k ps prev) = length ps"
  by (induction ps arbitrary: prev) (simp_all add: Let_def)

lemma length_calcEMA: "length (calcEMA prices period) = length prices"
  by (cases prices) (simp_all add: calcEMA_def Let_def length_ema_loop)

lemma ema_step_constant:
  "num_add (num_mul (Fin v) (Fin k)) (num_mul (Fin v) (num_sub (Fin 1) (Fin k))) = Fin v"
  by (simp add: num_sub_def algebra_simps)

lemma ema_loop_constant:
  "\<forall>x \<in> set ps. x = Fin v \<Longrightarrow> ema_loop (Fin k) ps (Fin v) = ps"
proof (induction ps)
  case Nil
  show ?case by simp
next
  case (Cons p ps)
  from Cons.prems have p: "p = Fin v" and rest: "\<forall>x \<in> set ps. x = Fin v"
    by simp_all
  have step: "num_add (num_mul p (Fin k)) (num_mul (Fin v) (num_sub (Fin 1) (Fin k))) = Fin v"
    unfolding p by (rule ema_step_constant)
  have "ema_loop (Fin k) (p # ps) (Fin v) = Fin v # ema_loop (Fin k) ps (Fin v)"
    by (simp only: ema_loop.simps Let_def step)
  then show ?case
    by (simp only: Cons.IH [OF rest] p)
qed

text \<open>
  C9, as amended: for every period \<open>p \<ge> 1\<close> and every non-empty series all of whose
  elements equal the same finite value \<open>v\<close>, \<open>calcEMA\<close> returns a series of the same
  length whose every element equals \<open>v\<close> when the arithmetic is exact: a constant
  series is a fixed point of the seed and of each step of the recurrence.
\<close>

theorem calcEMA_constant_series:
  assumes "1 \<le> p" and "xs \<noteq> []" and "\<forall>x \<in> set xs. x = Fin v"
  shows "length (calcEMA xs p) = length xs \<and> (\<forall>y \<in> set (calcEMA xs p). y = Fin v)"
proof -
  from assms(2) obtain x0 rest where xs: "xs = x0 # rest"
    by (cases xs) auto
  with assms(3) have x0: "x0 = Fin v" and rest: "\<forall>x \<in> set rest. x = Fin v"
    by simp_all
  have "calcEMA xs p = xs"
    unfolding calcEMA_def ema_k_finite Let_def xs
    by (simp add: x0 ema_loop_constant [OF rest])
  with assms(3) show ?thesis by simp
qed

theorem calcEMA_constant_series_witness:
  "(1::nat) \<le> 15 \<and> [Fin 100, Fin 100, Fin 100] \<noteq> []
   \<and> set [Fin 100, Fin 100, Fin 100] = {Fin 100}
   \<and> length (calcEMA [Fin 100, Fin 100, Fin 100] 15) = 3
   \<and> set (calcEMA [Fin 100, Fin 100, Fin 100] 15) \<subseteq> {Fin 100}"
  using calcEMA_constant_series [of 15 "[Fin 100, Fin 100, Fin 100]" 100]
  by auto

lemma exponent_from_eq:
  assumes "2 powi e \<le> a" and "a < 2 powi (e + 1)" and "e \<le> z" and "nat (z - e) \<le> n"
  shows "exponent_from n z a = e"
  using assms(3,4)
proof (induction n arbitrary: z)
  case 0
  then show ?case by simp
next
  case (Suc n)
  show ?case
  proof (cases "z = e")
    case True
    with assms(1) show ?thesis by simp
  next
    case False
    with Suc.prems have above: "e + 1 \<le> z" by simp
    have "(2::real) powi (e + 1) \<le> 2 powi z"
      using above by (intro power_int_increasing) simp_all
    with assms(2) have "\<not> 2 powi z \<le> a" by simp
    moreover have "exponent_from n (z - 1) a = e"
      using above Suc.prems by (intro Suc.IH) simp_all
    ultimately show ?thesis by simp
  qed
qed

lemma exponent_eq:
  assumes "2 powi e \<le> \<bar>x\<bar>" and "\<bar>x\<bar> < 2 powi (e + 1)" and "- 1022 \<le> e" and "e \<le> 1023"
  shows "exponent x = e"
  unfolding exponent_def using assms by (intro exponent_from_eq) simp_all

text \<open>
  The roundings of one step of the recurrence at price 7 and period 60: of the
  period plus one, of the factor \<open>k = 2 / 61\<close>, of \<open>1 - k\<close>, of the two products \<open>7 * k\<close>
  and \<open>7 * (1 - k)\<close>, and of their sum. The arguments are the exact results of
  the operations on the rounded operands, as fractions in lowest terms.
\<close>

lemma dbl_61: "dbl 61 = Fin 61"
proof -
  have "exponent 61 = 5"
    by (rule exponent_eq) simp_all
  then show ?thesis
    by (simp add: dbl_def Let_def round_even_def)
qed

lemma dbl_k60: "dbl (2 / 61) = Fin (4725088133634619 / 144115188075855872)"
proof -
  have "exponent (2 / 61) = - 5"
    by (rule exponent_eq) simp_all
  then show ?thesis
    by (simp add: dbl_def Let_def round_even_def)
qed

lemma dbl_one_minus_k60:
  "dbl (139390099942221253 / 144115188075855872) = Fin (2177970311597207 / 2251799813685248)"
proof -
  have "exponent (139390099942221253 / 144115188075855872) = - 1"
    by (rule exponent_eq) simp_all
  then show ?thesis
    by (simp add: dbl_def Let_def round_even_def)
qed

lemma dbl_7k60:
  "dbl (33075616935442333 / 144115188075855872) = Fin (8268904233860583 / 36028797018963968)"
proof -
  have "exponent (33075616935442333 / 144115188075855872) = - 3"
    by (rule exponent_eq) simp_all
  then show ?thesis
    by (simp add: dbl_def Let_def round_even_def)
qed

lemma dbl_7_one_minus_k60:
  "dbl (15245792181180449 / 2251799813685248) = Fin (476431005661889 / 70368744177664)"
proof -
  have "exponent (15245792181180449 / 2251799813685248) = 2"
    by (rule exponent_eq) simp_all
  then show ?thesis
    by (simp add: dbl_def Let_def round_even_def)
qed

lemma dbl_sum60:
  "dbl (252201579132747751 / 36028797018963968) = Fin (7 - 1 / 2 ^ 50)"
proof -
  have "exponent (252201579132747751 / 36028797018963968) = 2"
    by (rule exponent_eq) simp_all
  then show ?thesis
    by (simp add: dbl_def Let_def round_even_def)
qed

text \<open>
  In double arithmetic the property fails: at price 7 and period 60 the second
  element is \<open>7 - 2 powi (-50)\<close>, printed by JavaScript as 6.999999999999999.
\<close>

theorem calcEMA_constant_series_counterexample:
  "(1::nat) \<le> 60
   \<and> calcEMA_double [Fin 7, Fin 7] 60 = [Fin 7, Fin (7 - 1 / 2 ^ 50)]
   \<and> calcEMA_double [Fin 7, Fin 7] 60 \<noteq> [Fin 7, Fin 7]"
proof -
  have "calcEMA_double [Fin 7, Fin 7] 60 = [Fin 7, Fin (7 - 1 / 2 ^ 50)]"
    by (simp only: calcEMA_double_def ema_loop_double.simps Let_def list.case
        num_add.simps num_sub_def num_neg.simps num_mul.simps num_div.simps round_num.simps
        of_nat_numeral)
       (simp add: dbl_61 dbl_k60 dbl_one_minus_k60 dbl_7k60 dbl_7_one_minus_k60 dbl_sum60)
  then show ?thesis
    by simp
qed



section \<open>Properties of the crossover scan and of the stop-loss loop\<close>







section \<open>The example snapshots evaluated\<close>










lemma ex_market_fields:
  "candles1H (ex_market c1h c3m) = c1h" "candles3m (ex_market c1h c3m) = c3m"
  "ticker (ex_market c1h c3m) = Some (ex_ticker 102)"
  by (simp_all add: ex_market_def)







section \<open>Properties of the strategy\<close>

text \<open>
  C5: whenever either candle series holds fewer than 60 entries, the strategy
  returns Hold with the data-accumulating rationale, whatever the prices and
  whatever the positions of the account.
\<close>

theorem analyzeStrategy_insufficient_data:
  assumes "length (candles1H md) < 60 \<or> length (candles3m md) < 60"
  shows "action (analyzeStrategy inst md ad) = HOLD
         \<and> reason (analyzeStrategy inst md ad) = DataInsufficient"
  using assms by (auto simp add: analyzeStrategy_def Let_def)

theorem analyzeStrategy_insufficient_data_witness:
  "(length (candles1H (ex_market [] ex_c3m_buy)) < 60
      \<or> length (candles3m (ex_market [] ex_c3m_buy)) < 60)
   \<and> action (analyzeStrategy ''ETH-USDT-SWAP'' (ex_market [] ex_c3m_buy)
               (ex_account [ex_pos_trailing])) = HOLD
   \<and> reason (analyzeStrategy ''ETH-USDT-SWAP'' (ex_market [] ex_c3m_buy)
               (ex_account [ex_pos_trailing])) = DataInsufficient"
proof -
  have h: "length (candles1H (ex_market [] ex_c3m_buy)) < 60
           \<or> length (candles3m (ex_market [] ex_c3m_buy)) < 60"
    by (simp add: ex_market_fields)
  from analyzeStrategy_insufficient_data [OF h] h show ?thesis
    by blast
qed





section \<open>Properties of the position management\<close>
















section \<open>Properties of the decision\<close>

text \<open>
  C10: for every snapshot and account the decision carries the leverage \<open>"10"\<close>,
  in the trading decision and at top level, and the take-profit \<open>"0"\<close>.
\<close>

theorem getTradingDecision_constants:
  "td_leverage (trading_decision (getTradingDecision inst md ad)) = ''10''
   \<and> profit_target (trading_decision (getTradingDecision inst md ad)) = ''0''
   \<and> d_leverage (getTradingDecision inst md ad) = ''10''"
  by (simp add: getTradingDecision_def Let_def split: prod.splits)

theorem getTradingDecision_constants_witness:
  "td_leverage (trading_decision (getTradingDecision ''ETH-USDT-SWAP''
      (ex_market ex_c1h_up ex_c3m_buy) (ex_account []))) = ''10''
   \<and> profit_target (trading_decision (getTradingDecision ''ETH-USDT-SWAP''
      (ex_market ex_c1h_up ex_c3m_buy) (ex_account []))) = ''0''
   \<and> d_leverage (getTradingDecision ''ETH-USDT-SWAP''
      (ex_market ex_c1h_up ex_c3m_buy) (ex_account [])) = ''10''"
  by (rule getTradingDecision_constants)








section \<open>Properties of the execution client\<close>

lemma ensureLongShortMode_requests:
  "set (fst (ensureLongShortMode ex config)) \<subseteq> {GetAccountConfig, SetPositionMode}"
  by (auto simp add: ensureLongShortMode_def split: Outcome.splits list.splits)

lemma ensureLongShortMode_live:
  "\<not> isSimulation config \<Longrightarrow>
   \<exists>rest. fst (ensureLongShortMode ex config) = GetAccountConfig # rest"
  by (auto simp add: ensureLongShortMode_def split: Outcome.splits list.splits)

lemma setLeverage_requests:
  "\<not> isSimulation config \<Longrightarrow> fst (setLeverage ex lever pside config) = [SetLeverage lever pside]"
  by (auto simp add: setLeverage_def split: Outcome.splits)

lemma ex_pre_step:
  "fst (ensureLongShortMode ex_all_ok ex_live_config) = [GetAccountConfig]"
  "fst (ensureLongShortMode ex_no_long ex_live_config) = [GetAccountConfig]"
  "fst (ensureLongShortMode ex_no_position ex_live_config) = [GetAccountConfig]"
  by (simp_all add: ensureLongShortMode_def ex_all_ok_def ex_no_long_def ex_no_position_def
      ex_live_config_def ex_reply_def)

lemma ex_order_fields:
  "d_action (ex_order act sz_str sl_str) = act"
  "d_size (ex_order act sz_str sl_str) = sz_str"
  "d_leverage (ex_order act sz_str sl_str) = ''10''"
  "stop_loss (trading_decision (ex_order act sz_str sl_str)) = sl_str"
  by (simp_all add: ex_order_def)

lemma ex_live: "\<not> isSimulation ex_live_config"
  by (simp add: ex_live_config_def)

lemma closeFailedMessage_contains:
  "sublist msgLong (closeFailedMessage msgLong msgShort)"
  "sublist msgShort (closeFailedMessage msgLong msgShort)"
proof -
  have "\<exists>ps ss. closeFailedMessage msgLong msgShort = ps @ msgLong @ ss"
    unfolding closeFailedMessage_def by (metis append.assoc)
  then show "sublist msgLong (closeFailedMessage msgLong msgShort)"
    by (simp add: sublist_def)
  have "\<exists>ps ss. closeFailedMessage msgLong msgShort = ps @ msgShort @ ss"
    unfolding closeFailedMessage_def by (metis append.assoc)
  then show "sublist msgShort (closeFailedMessage msgLong msgShort)"
    by (simp add: sublist_def)
qed

text \<open>
  C3, as amended: on a Close instruction outside simulation, with the exchange
  answering the close requests, \<open>executeOrder\<close> first attempts to close the long
  side; if that returns code \<open>"0"\<close> it returns this reply and the short side is not
  attempted; if it returns another code the short side is attempted, and the
  result is its reply when that carries code \<open>"0"\<close>, and otherwise the failure whose
  message contains both messages of the exchange. \<open>t0\<close> are the requests of the
  pre-step.
\<close>

theorem executeOrder_close_fallback:
  assumes "\<not> isSimulation config" and "d_action order = CLOSE"
    and "ex (ClosePosition Long) = Reply jsonLong"
    and "ex (ClosePosition Short) = Reply jsonShort"
    and "t0 = fst (ensureLongShortMode ex config)"
  shows "(code jsonLong = ''0'' \<longrightarrow>
            executeOrder ex now order config = (t0 @ [ClosePosition Long], Inr jsonLong))
         \<and> (code jsonLong \<noteq> ''0'' \<and> code jsonShort = ''0'' \<longrightarrow>
            executeOrder ex now order config
              = (t0 @ [ClosePosition Long, ClosePosition Short], Inr jsonShort))
         \<and> (code jsonLong \<noteq> ''0'' \<and> code jsonShort \<noteq> ''0'' \<longrightarrow>
            executeOrder ex now order config
              = (t0 @ [ClosePosition Long, ClosePosition Short],
                 Inl (CloseFailed (closeFailedMessage (msg jsonLong) (msg jsonShort)))))
         \<and> sublist (msg jsonLong) (closeFailedMessage (msg jsonLong) (msg jsonShort))
         \<and> sublist (msg jsonShort) (closeFailedMessage (msg jsonLong) (msg jsonShort))"
  using assms by (simp add: executeOrder_def Let_def closeFailedMessage_contains)

theorem executeOrder_close_fallback_witness:
  "\<not> isSimulation ex_live_config
   \<and> d_action (ex_order CLOSE (Str (Fin 0)) (Str (Fin 0))) = CLOSE
   \<and> executeOrder ex_all_ok ''0'' (ex_order CLOSE (Str (Fin 0)) (Str (Fin 0))) ex_live_config
       = ([GetAccountConfig, ClosePosition Long], Inr (ex_reply ''0'' []))
   \<and> executeOrder ex_no_long ''0'' (ex_order CLOSE (Str (Fin 0)) (Str (Fin 0))) ex_live_config
       = ([GetAccountConfig, ClosePosition Long, ClosePosition Short], Inr (ex_reply ''0'' []))
   \<and> executeOrder ex_no_position ''0'' (ex_order CLOSE (Str (Fin 0)) (Str (Fin 0)))
        ex_live_config
       = ([GetAccountConfig, ClosePosition Long, ClosePosition Short],
          Inl (CloseFailed (closeFailedMessage ''no long position'' ''no short position'')))"
proof -
  let ?order = "ex_order CLOSE (Str (Fin 0)) (Str (Fin 0))"
  have act: "d_action ?order = CLOSE"
    by (simp add: ex_order_fields)
  have ok: "ex_all_ok (ClosePosition Long) = Reply (ex_reply ''0'' [])"
      "ex_all_ok (ClosePosition Short) = Reply (ex_reply ''0'' [])"
    by (simp_all add: ex_all_ok_def)
  have nl: "ex_no_long (ClosePosition Long) = Reply (ex_reply ''51023'' ''no long position'')"
      "ex_no_long (ClosePosition Short) = Reply (ex_reply ''0'' [])"
    by (simp_all add: ex_no_long_def)
  have np: "ex_no_position (ClosePosition Long) = Reply (ex_reply ''51023'' ''no long position'')"
      "ex_no_position (ClosePosition Short) = Reply (ex_reply ''51023'' ''no short position'')"
    by (simp_all add: ex_no_position_def)
  have "executeOrder ex_all_ok ''0'' ?order ex_live_config
        = ([GetAccountConfig, ClosePosition Long], Inr (ex_reply ''0'' []))"
    using executeOrder_close_fallback [OF ex_live act ok refl, of "''0''"]
    by (simp add: ex_pre_step ex_reply_def)
  moreover have "executeOrder ex_no_long ''0'' ?order ex_live_config
        = ([GetAccountConfig, ClosePosition Long, ClosePosition Short], Inr (ex_reply ''0'' []))"
    using executeOrder_close_fallback [OF ex_live act nl refl, of "''0''"]
    by (simp add: ex_pre_step ex_reply_def)
  moreover have "executeOrder ex_no_position ''0'' ?order ex_live_config
        = ([GetAccountConfig, ClosePosition Long, ClosePosition Short],
           Inl (CloseFailed (closeFailedMessage ''no long position'' ''no short position'')))"
    using executeOrder_close_fallback [OF ex_live act np refl, of "''0''"]
    by (simp add: ex_pre_step ex_reply_def)
  ultimately show ?thesis
    using ex_live act by simp
qed

text \<open>
  When the exchange accepts closing the long side, the short side is not
  attempted.
\<close>

theorem executeOrder_close_counterexample:
  "\<not> isSimulation ex_live_config
   \<and> d_action (ex_order CLOSE (Str (Fin 0)) (Str (Fin 0))) = CLOSE
   \<and> ClosePosition Long
       \<in> set (fst (executeOrder ex_all_ok ''0'' (ex_order CLOSE (Str (Fin 0)) (Str (Fin 0)))
                  ex_live_config))
   \<and> ClosePosition Short
       \<notin> set (fst (executeOrder ex_all_ok ''0'' (ex_order CLOSE (Str (Fin 0)) (Str (Fin 0)))
                  ex_live_config))"
  by (simp add: executeOrder_def Let_def ex_live ex_order_fields ex_pre_step)
     (simp add: ex_all_ok_def ex_reply_def)

text \<open>
  C4, as amended: on a Buy or Sell instruction outside simulation whose size
  parses to a number below 0.01, \<open>executeOrder\<close> fails, with the invalid-quantity
  error or with the leverage error, and issues no order request; the requests
  issued are those of the position-mode pre-step and the set-leverage request,
  which come before the size is checked; when the exchange accepts the leverage
  the failure is the invalid-quantity error.
\<close>

theorem executeOrder_small_size:
  assumes "\<not> isSimulation config"
    and "d_action order = BUY \<or> d_action order = SELL"
    and "num_lt (parseFloat (d_size order)) (Fin (1 / 100))"
    and "lever = (if d_leverage order = [] then ''50'' else d_leverage order)"
    and "pside = (if d_action order = BUY then Long else Short)"
  shows "(snd (executeOrder ex now order config) = Inl (InvalidSize (d_size order))
            \<or> (\<exists>e. snd (executeOrder ex now order config) = Inl (CannotSetLeverage e)))
         \<and> fst (executeOrder ex now order config)
             = fst (ensureLongShortMode ex config) @ [SetLeverage lever pside]
         \<and> (\<forall>b. PlaceOrder b \<notin> set (fst (executeOrder ex now order config)))
         \<and> ((\<exists>r. ex (SetLeverage lever pside) = Reply r \<and> code r = ''0'')
              \<longrightarrow> snd (executeOrder ex now order config) = Inl (InvalidSize (d_size order)))"
proof -
  have not_close: "d_action order \<noteq> CLOSE"
    using assms(2) by auto
  obtain t1 lev where lev: "setLeverage ex lever pside config = (t1, lev)"
    by (cases "setLeverage ex lever pside config")
  have t1: "t1 = [SetLeverage lever pside]"
    using setLeverage_requests [OF assms(1), of ex lever pside] lev by simp
  have run: "executeOrder ex now order config =
      (case lev of
         Inl e \<Rightarrow> (fst (ensureLongShortMode ex config) @ t1, Inl (CannotSetLeverage e))
       | Inr _ \<Rightarrow> (fst (ensureLongShortMode ex config) @ t1, Inl (InvalidSize (d_size order))))"
    using assms(1,3) not_close lev
    unfolding executeOrder_def Let_def assms(4) [symmetric] assms(5) [symmetric]
    by (simp split: sum.splits)
  have trace: "fst (executeOrder ex now order config)
               = fst (ensureLongShortMode ex config) @ [SetLeverage lever pside]"
    unfolding run t1 by (simp split: sum.splits)
  have fails: "snd (executeOrder ex now order config) = Inl (InvalidSize (d_size order))
      \<or> (\<exists>e. snd (executeOrder ex now order config) = Inl (CannotSetLeverage e))"
    unfolding run by (cases lev) simp_all
  have no_order: "\<forall>b. PlaceOrder b \<notin> set (fst (executeOrder ex now order config))"
    unfolding trace using ensureLongShortMode_requests [of ex config] by auto
  have accepted: "snd (executeOrder ex now order config) = Inl (InvalidSize (d_size order))"
    if "\<exists>r. ex (SetLeverage lever pside) = Reply r \<and> code r = ''0''"
  proof -
    from that assms(1) lev have "lev = Inr ()"
      by (auto simp add: setLeverage_def)
    then show ?thesis
      unfolding run by simp
  qed
  from fails trace no_order accepted show ?thesis
    by blast
qed

theorem executeOrder_small_size_witness:
  "\<not> isSimulation ex_live_config
   \<and> d_action (ex_order BUY (Str (Fin 0)) (Str (Fin 0))) = BUY
   \<and> num_lt (parseFloat (d_size (ex_order BUY (Str (Fin 0)) (Str (Fin 0))))) (Fin (1 / 100))
   \<and> fst (executeOrder ex_all_ok ''0'' (ex_order BUY (Str (Fin 0)) (Str (Fin 0))) ex_live_config)
       = [GetAccountConfig, SetLeverage ''10'' Long]
   \<and> snd (executeOrder ex_all_ok ''0'' (ex_order BUY (Str (Fin 0)) (Str (Fin 0))) ex_live_config)
       = Inl (InvalidSize (Str (Fin 0)))"
proof -
  let ?order = "ex_order BUY (Str (Fin 0)) (Str (Fin 0))"
  have act: "d_action ?order = BUY \<or> d_action ?order = SELL"
    by (simp add: ex_order_fields)
  have small: "num_lt (parseFloat (d_size ?order)) (Fin (1 / 100))"
    by (simp add: ex_order_fields)
  have lever: "''10'' = (if d_leverage ?order = [] then ''50'' else d_leverage ?order)"
    by (simp add: ex_order_fields)
  have pside: "Long = (if d_action ?order = BUY then Long else Short)"
    by (simp add: ex_order_fields)
  have accepted: "\<exists>r. ex_all_ok (SetLeverage ''10'' Long) = Reply r \<and> code r = ''0''"
    by (simp add: ex_all_ok_def ex_reply_def)
  from executeOrder_small_size [OF ex_live act small lever pside, of ex_all_ok "''0''"] accepted
  have "fst (executeOrder ex_all_ok ''0'' ?order ex_live_config)
          = fst (ensureLongShortMode ex_all_ok ex_live_config) @ [SetLeverage ''10'' Long]"
    and "snd (executeOrder ex_all_ok ''0'' ?order ex_live_config) = Inl (InvalidSize (d_size ?order))"
    by blast+
  then show ?thesis
    using ex_live small by (simp add: ex_pre_step ex_order_fields)
qed

text \<open>
  A Buy of size 0 is rejected only after the account configuration has been read
  and the leverage has been set.
\<close>

theorem executeOrder_small_size_counterexample:
  "\<not> isSimulation ex_live_config
   \<and> d_action (ex_order BUY (Str (Fin 0)) (Str (Fin 0))) = BUY
   \<and> num_lt (parseFloat (d_size (ex_order BUY (Str (Fin 0)) (Str (Fin 0))))) (Fin (1 / 100))
   \<and> fst (executeOrder ex_all_ok ''0'' (ex_order BUY (Str (Fin 0)) (Str (Fin 0))) ex_live_config)
       \<noteq> []
   \<and> GetAccountConfig
       \<in> set (fst (executeOrder ex_all_ok ''0'' (ex_order BUY (Str (Fin 0)) (Str (Fin 0)))
                  ex_live_config))
   \<and> SetLeverage ''10'' Long
       \<in> set (fst (executeOrder ex_all_ok ''0'' (ex_order BUY (Str (Fin 0)) (Str (Fin 0)))
                  ex_live_config))"
  by (simp add: executeOrder_def Let_def ex_live ex_order_fields ex_pre_step setLeverage_def)
     (simp add: ex_all_ok_def ex_reply_def)

text \<open>
  A size that does not parse is NaN, which no comparison catches: the order is
  placed with that size.
\<close>

lemma executeOrder_unparsable_size_example:
  "parseFloat (d_size (ex_order BUY (Str NaN) (Str (Fin 0)))) = NaN
   \<and> executeOrder ex_all_ok ''0'' (ex_order BUY (Str NaN) (Str (Fin 0))) ex_live_config
       = ([GetAccountConfig, SetLeverage ''10'' Long,
           PlaceOrder \<lparr>side = Buy, ob_posSide = Long, sz = Str NaN, attachAlgoOrds = None\<rparr>],
          Inr (ex_reply ''0'' []))"
  by (simp add: executeOrder_def Let_def ex_live ex_order_fields ex_pre_step setLeverage_def
      cleanPrice_def num_gt_def)
     (simp add: ex_all_ok_def ex_reply_def)

end
